theory Spec2Isabelle
  imports Main "HOL-Library.Word"
begin

section \<open>Pagination helpers (types.go)\<close>

text \<open>
  Go's \<open>int\<close> is a two's-complement machine integer; on the 64-bit platforms Go
  targets by default it has 64 bits. Addition wraps around, and comparison reads the
  bits as a signed value (\<open>sint\<close>).
\<close>

type_synonym go_int = "64 word"

record 'a PaginatedResponse =
  Data :: "'a list"
  Total :: go_int
  Limit :: go_int
  Offset :: go_int

definition HasMore :: "'a PaginatedResponse \<Rightarrow> bool" where
  "HasMore p = (sint (Offset p + Limit p) < sint (Total p))"

definition NextOffset :: "'a PaginatedResponse \<Rightarrow> go_int" where
  "NextOffset p = Offset p + Limit p"

section \<open>Errors\<close>

text \<open>
  \<open>EKDSendError\<close> is the base error; the four typed errors embed it and two of them add
  a field. A Go \<open>error\<close> returned by this package is one of: a plain message
  (\<open>fmt.Errorf\<close> without a wrapped error, \<open>errors.New\<close>), a message wrapping an
  underlying library error with \<open>%w\<close>, or a pointer to one of the API error structs.
  \<open>'e\<close> is the type of the errors of the libraries underneath (context, rate, net/http,
  encoding/json, io); \<open>'v\<close> is what a decoded \<open>interface{}\<close> holds. A run-time panic
  is not an error value, but it is an outcome of a call, so it has a constructor too.
\<close>

record EKDSendError =
  Message :: string
  StatusCode :: int
  Code :: string
  RequestID :: string

datatype 'v api_error =
    Base EKDSendError
  | AuthenticationError EKDSendError
  | ValidationError EKDSendError "string \<rightharpoonup> 'v"
  | RateLimitError EKDSendError int
  | NotFoundError EKDSendError

fun embedded :: "'v api_error \<Rightarrow> EKDSendError" where
  "embedded (Base e) = e"
| "embedded (AuthenticationError e) = e"
| "embedded (ValidationError e errs) = e"
| "embedded (RateLimitError e retryAfter) = e"
| "embedded (NotFoundError e) = e"

datatype ('e, 'v) error =
    Errorf string
  | ErrorfW string 'e
  | APIError "'v api_error"
  | Panic string

fun IsAuthenticationError :: "('e, 'v) error \<Rightarrow> bool" where
  "IsAuthenticationError (APIError (AuthenticationError e)) = True"
| "IsAuthenticationError err = False"

fun IsValidationError :: "('e, 'v) error \<Rightarrow> bool" where
  "IsValidationError (APIError (ValidationError e errs)) = True"
| "IsValidationError err = False"

fun IsRateLimitError :: "('e, 'v) error \<Rightarrow> bool" where
  "IsRateLimitError (APIError (RateLimitError e retryAfter)) = True"
| "IsRateLimitError err = False"

fun IsNotFoundError :: "('e, 'v) error \<Rightarrow> bool" where
  "IsNotFoundError (APIError (NotFoundError e)) = True"
| "IsNotFoundError err = False"

section \<open>The client and its construction\<close>

definition Version :: string where
  "Version = ''1.1.0''"

definition DefaultBaseURL :: string where
  "DefaultBaseURL = ''https://es.ekddigital.com/v1''"

text \<open>A \<open>time.Duration\<close> counts nanoseconds.\<close>

definition Second :: int where
  "Second = 1000000000"

definition DefaultTimeout :: int where
  "DefaultTimeout = 30 * Second"

record http_Client =
  Timeout :: int

record rate_Limiter =
  limit :: int
  burst :: int

text \<open>
  The three resource handles of the Go struct (\<open>Emails\<close>, \<open>SMS\<close>, \<open>Calls\<close>) only point
  back to the client itself; they carry no data and are left out of the record. The
  field \<open>httpClient\<close> is a pointer, and \<open>WithHTTPClient\<close> can set it to \<open>nil\<close>
  (\<open>None\<close>).
\<close>

record Client =
  apiKey :: string
  baseURL :: string
  httpClient :: "http_Client option"
  rateLimiter :: rate_Limiter
  debug :: bool

text \<open>
  A \<open>ClientOption\<close> is a function value \<open>func(*Client)\<close> supplied by the caller. It
  may be \<open>nil\<close> (\<open>None\<close>), and calling it may panic instead of returning: applied to
  a client it yields the updated client, or \<open>None\<close> for a panic.
\<close>

type_synonym ClientOption = "(Client \<Rightarrow> Client option) option"

text \<open>\<open>strings.HasPrefix\<close> and \<open>strings.TrimSuffix\<close>.\<close>

definition HasPrefix :: "string \<Rightarrow> string \<Rightarrow> bool" where
  "HasPrefix s pre = (length pre \<le> length s \<and> take (length pre) s = pre)"

definition TrimSuffix :: "string \<Rightarrow> string \<Rightarrow> string" where
  "TrimSuffix s suf =
     (if length suf \<le> length s \<and> drop (length s - length suf) s = suf
      then take (length s - length suf) s else s)"

definition WithBaseURL :: "string \<Rightarrow> ClientOption" where
  "WithBaseURL url = Some (\<lambda>c. Some (c\<lparr>baseURL := TrimSuffix url ''/''\<rparr>))"

text \<open>
  \<open>WithTimeout\<close> writes \<open>c.httpClient.Timeout\<close>: with a \<open>nil\<close> HTTP client the
  write dereferences a nil pointer and panics.
\<close>

definition WithTimeout :: "int \<Rightarrow> ClientOption" where
  "WithTimeout timeout =
     Some (\<lambda>c. case httpClient c of
                 None \<Rightarrow> None
               | Some hc \<Rightarrow> Some (c\<lparr>httpClient := Some (hc\<lparr>Timeout := timeout\<rparr>)\<rparr>))"

definition WithHTTPClient :: "http_Client option \<Rightarrow> ClientOption" where
  "WithHTTPClient hc = Some (\<lambda>c. Some (c\<lparr>httpClient := hc\<rparr>))"

definition WithDebug :: "bool \<Rightarrow> ClientOption" where
  "WithDebug d = Some (\<lambda>c. Some (c\<lparr>debug := d\<rparr>))"

definition WithRateLimiter :: "rate_Limiter \<Rightarrow> ClientOption" where
  "WithRateLimiter limiter = Some (\<lambda>c. Some (c\<lparr>rateLimiter := limiter\<rparr>))"

definition quoted :: "string \<Rightarrow> string" where
  "quoted s = [CHR 0x27] @ s @ [CHR 0x27]"

text \<open>
  The loop \<open>for _, opt := range opts { opt(c) }\<close>: it stops with a panic (\<open>None\<close>) at
  the first option that is \<open>nil\<close> or that panics.
\<close>

fun apply_opts :: "Client \<Rightarrow> ClientOption list \<Rightarrow> Client option" where
  "apply_opts c [] = Some c"
| "apply_opts c (opt # opts) =
     (case opt of
        None \<Rightarrow> None
      | Some f \<Rightarrow> (case f c of None \<Rightarrow> None | Some c' \<Rightarrow> apply_opts c' opts))"

definition New :: "string \<Rightarrow> ClientOption list \<Rightarrow> ('e, 'v) error + Client" where
  "New key opts =
     (if key = [] then Inl (Errorf ''API key is required'')
      else if \<not> HasPrefix key ''ek_live_'' \<and> \<not> HasPrefix key ''ek_test_''
        then Inl (Errorf (''invalid API key format: must start with '' @ quoted ''ek_live_''
                          @ '' or '' @ quoted ''ek_test_''))
      else
        let c = \<lparr>apiKey = key, baseURL = DefaultBaseURL,
                 httpClient = Some \<lparr>Timeout = DefaultTimeout\<rparr>,
                 rateLimiter = \<lparr>limit = 100, burst = 10\<rparr>,
                 debug = False\<rparr>
        in (case apply_opts c opts of
              None \<Rightarrow> Inl (Panic ''nil pointer dereference'')
            | Some c' \<Rightarrow> Inr c'))"

section \<open>The request executor\<close>

subsection \<open>What the executor talks to\<close>

text \<open>
  An \<open>http.Header\<close> maps a header name to its value; \<open>Get\<close> answers the empty string
  for a name that is absent. Go matches header names regardless of case; here a
  name is written the same way wherever it is used.
\<close>

type_synonym http_Header = "string \<rightharpoonup> string"

definition Header_Get :: "http_Header \<Rightarrow> string \<Rightarrow> string" where
  "Header_Get h name = (case h name of None \<Rightarrow> [] | Some v \<Rightarrow> v)"

definition Header_Set :: "http_Header \<Rightarrow> string \<Rightarrow> string \<Rightarrow> http_Header" where
  "Header_Set h name v = h(name \<mapsto> v)"

record http_Request =
  req_Method :: string
  req_URL :: string
  req_Header :: http_Header
  req_Body :: "string option"

text \<open>
  A response as the executor sees it: the status code, the headers, and what
  \<open>io.ReadAll\<close> yields on its body (the bytes, or a read error).
\<close>

record 'e http_Response =
  resp_StatusCode :: int
  resp_Header :: http_Header
  resp_Body :: "'e + string"

text \<open>The anonymous struct that \<open>handleError\<close> decodes the body into.\<close>

record 'v errResp =
  Error_Message :: string
  Error_Code :: string
  Error_Details :: "string \<rightharpoonup> 'v"
  Error_RetryAfter :: int

text \<open>
  The libraries and the network are the environment of a call. One call of \<open>Request\<close>
  makes, in this order: one \<open>rateLimiter.Wait\<close>, at most one \<open>json.Marshal\<close>, one
  \<open>http.NewRequestWithContext\<close>, up to four \<open>httpClient.Do\<close> (the outcome of the
  one made in iteration \<open>attempt\<close> is \<open>httpClient_Do w attempt\<close>), and at most one
  \<open>json.Unmarshal\<close>. \<open>json.Unmarshal\<close> into the caller's destination writes through a
  pointer, and may have written part of the value when it fails: it yields the error, if
  any, and the destination afterwards. \<open>'b\<close> is the type of request bodies and \<open>'r\<close>
  the type of destinations.
\<close>

record ('e, 'b, 'r, 'v) world =
  rateLimiter_Wait :: "'e option"
  json_Marshal :: "'b \<Rightarrow> 'e + string"
  http_NewRequest :: "string \<Rightarrow> string \<Rightarrow> 'e option"
  httpClient_Do :: "nat \<Rightarrow> 'e + 'e http_Response"
  json_Unmarshal :: "string \<Rightarrow> 'r \<Rightarrow> 'e option \<times> 'r"
  json_Unmarshal_errResp :: "string \<Rightarrow> 'e + 'v errResp"

text \<open>
  What a call does to the outside is recorded as a trace: each \<open>httpClient.Do\<close> with the
  request it sends, and each \<open>time.Sleep\<close> with its duration. The debug output and
  the closing of response bodies are not recorded.
\<close>

datatype event = Do http_Request | Sleep int

subsection \<open>Error classification\<close>

definition handleError ::
  "('e, 'b, 'r, 'v) world \<Rightarrow> int \<Rightarrow> string \<Rightarrow> string \<Rightarrow> 'v api_error" where
  "handleError w statusCode body requestID =
     (case json_Unmarshal_errResp w body of
        Inl err \<Rightarrow>
          Base \<lparr>Message = ''API request failed'', StatusCode = statusCode,
                Code = ''UNKNOWN_ERROR'', RequestID = requestID\<rparr>
      | Inr errResp \<Rightarrow>
          if statusCode = 400 then
            ValidationError
              \<lparr>Message = Error_Message errResp, StatusCode = 400,
               Code = ''VALIDATION_ERROR'', RequestID = requestID\<rparr>
              (Error_Details errResp)
          else if statusCode = 401 then
            AuthenticationError
              \<lparr>Message = Error_Message errResp, StatusCode = 401,
               Code = ''AUTHENTICATION_ERROR'', RequestID = requestID\<rparr>
          else if statusCode = 404 then
            NotFoundError
              \<lparr>Message = Error_Message errResp, StatusCode = 404,
               Code = Error_Code errResp, RequestID = requestID\<rparr>
          else if statusCode = 429 then
            RateLimitError
              \<lparr>Message = Error_Message errResp, StatusCode = 429,
               Code = ''RATE_LIMIT_EXCEEDED'', RequestID = requestID\<rparr>
              (Error_RetryAfter errResp)
          else
            Base \<lparr>Message = Error_Message errResp, StatusCode = statusCode,
                  Code = Error_Code errResp, RequestID = requestID\<rparr>)"

subsection \<open>The retry loop\<close>

text \<open>
  The loop \<open>for attempt := 0; attempt <= maxRetries; attempt++\<close>. It ends by
  \<open>return\<close> with the transport error of the last attempt (\<open>Failed\<close>), or by
  \<open>break\<close> with a response (\<open>Got\<close>). Were the loop condition ever false, \<open>resp\<close>
  would still be \<open>nil\<close> (\<open>NoResponse\<close>).
\<close>

datatype 'e loop_result = Failed 'e | Got "'e http_Response" | NoResponse

function attempts ::
  "('e, 'b, 'r, 'v) world \<Rightarrow> http_Request \<Rightarrow> nat \<Rightarrow> nat \<Rightarrow> event list
     \<Rightarrow> event list \<times> 'e loop_result" where
  "attempts w req maxRetries attempt tr =
     (if attempt \<le> maxRetries then
        (case httpClient_Do w attempt of
           Inl err \<Rightarrow>
             if attempt < maxRetries
             then attempts w req maxRetries (attempt + 1)
                    (tr @ [Do req, Sleep (2 ^ attempt * Second)])
             else (tr @ [Do req], Failed err)
         | Inr resp \<Rightarrow>
             if (resp_StatusCode resp = 429 \<or> resp_StatusCode resp \<ge> 500)
                \<and> attempt < maxRetries
             then attempts w req maxRetries (attempt + 1)
                    (tr @ [Do req, Sleep (2 ^ attempt * Second)])
             else (tr @ [Do req], Got resp))
      else (tr, NoResponse))"
  by pat_completeness auto
termination
  by (relation "measure (\<lambda>(w, req, maxRetries, attempt, tr). Suc maxRetries - attempt)") auto

declare attempts.simps [simp del]

subsection \<open>Request\<close>

text \<open>
  \<open>Request\<close> yields the error it returns (\<open>None\<close> for \<open>nil\<close>), the destination
  after the call (\<open>None\<close> when the caller passed \<open>nil\<close>), and the trace.
\<close>

definition Request ::
  "('e, 'b, 'r, 'v) world \<Rightarrow> Client \<Rightarrow> string \<Rightarrow> string \<Rightarrow> 'b option \<Rightarrow> 'r option
     \<Rightarrow> ('e, 'v) error option \<times> 'r option \<times> event list" where
  "Request w c method path body result =
     (case rateLimiter_Wait w of
        Some err \<Rightarrow> (Some (ErrorfW ''rate limiter error'' err), result, [])
      | None \<Rightarrow>
     let reqURL = baseURL c @ path in
     (case (case body of
              None \<Rightarrow> Inr None
            | Some b \<Rightarrow> (case json_Marshal w b of
                           Inl err \<Rightarrow> Inl err
                         | Inr jsonBody \<Rightarrow> Inr (Some jsonBody))) of
        Inl err \<Rightarrow> (Some (ErrorfW ''failed to marshal request body'' err), result, [])
      | Inr bodyReader \<Rightarrow>
     (case http_NewRequest w method reqURL of
        Some err \<Rightarrow> (Some (ErrorfW ''failed to create request'' err), result, [])
      | None \<Rightarrow>
     let h0 = Map.empty;
         h1 = Header_Set h0 ''Authorization'' (''Bearer '' @ apiKey c);
         h2 = Header_Set h1 ''Content-Type'' ''application/json'';
         h3 = Header_Set h2 ''Accept'' ''application/json'';
         h4 = Header_Set h3 ''User-Agent'' (''ekdsend-go/'' @ Version);
         req = \<lparr>req_Method = method, req_URL = reqURL, req_Header = h4,
                req_Body = bodyReader\<rparr>;
         maxRetries = 3
     in
     (case httpClient c of
        None \<Rightarrow> (Some (Panic ''nil pointer dereference''), result, [])
      | Some hc \<Rightarrow>
     (case attempts w req maxRetries 0 [] of
        (tr, Failed err) \<Rightarrow> (Some (ErrorfW ''request failed'' err), result, tr)
      | (tr, NoResponse) \<Rightarrow> (Some (Panic ''nil pointer dereference''), result, tr)
      | (tr, Got resp) \<Rightarrow>
     (case resp_Body resp of
        Inl err \<Rightarrow> (Some (ErrorfW ''failed to read response body'' err), result, tr)
      | Inr respBody \<Rightarrow>
          if resp_StatusCode resp \<ge> 400 then
            (Some (APIError (handleError w (resp_StatusCode resp) respBody
                               (Header_Get (resp_Header resp) ''x-request-id''))),
             result, tr)
          else
            (case result of
               None \<Rightarrow> (None, result, tr)
             | Some dest \<Rightarrow>
                 if length respBody > 0 then
                   (case json_Unmarshal w respBody dest of
                      (Some err, dest') \<Rightarrow>
                        (Some (ErrorfW ''failed to parse response'' err), Some dest', tr)
                    | (None, dest') \<Rightarrow> (None, Some dest', tr))
                 else (None, result, tr))))))))"

definition Post ::
  "('e, 'b, 'r, 'v) world \<Rightarrow> Client \<Rightarrow> string \<Rightarrow> 'b option \<Rightarrow> 'r option
     \<Rightarrow> ('e, 'v) error option \<times> 'r option \<times> event list" where
  "Post w c path body result = Request w c ''POST'' path body result"

section \<open>The voice API\<close>

text \<open>
  A \<open>time.Time\<close> is kept as nanoseconds since the zero time; a pointer field is an
  option. The fields of \<open>VoiceCall\<close> carry the prefix \<open>call_\<close>, since
  \<open>CreateCallParams\<close> has fields of the same names.
\<close>

type_synonym Time = int

record VoiceCall =
  call_ID :: string
  call_Status :: string
  call_To :: string
  call_From :: string
  call_TTSMessage :: string
  call_AudioURL :: string
  call_Voice :: string
  call_Language :: string
  call_Record :: bool
  call_MachineDetection :: bool
  call_Duration :: "int option"
  call_RecordingURL :: string
  call_Metadata :: "string \<rightharpoonup> string"
  call_CreatedAt :: Time
  call_AnsweredAt :: "Time option"
  call_EndedAt :: "Time option"

definition zero_VoiceCall :: VoiceCall where
  "zero_VoiceCall =
     \<lparr>call_ID = [], call_Status = [], call_To = [], call_From = [], call_TTSMessage = [],
      call_AudioURL = [], call_Voice = [], call_Language = [], call_Record = False,
      call_MachineDetection = False, call_Duration = None, call_RecordingURL = [],
      call_Metadata = Map.empty, call_CreatedAt = 0, call_AnsweredAt = None,
      call_EndedAt = None\<rparr>"

record CreateCallParams =
  To :: string
  From :: string
  TTSMessage :: string
  AudioURL :: string
  Voice :: string
  Language :: string
  Record :: bool
  MachineDetection :: bool
  WebhookURL :: string
  Metadata :: "string \<rightharpoonup> string"

text \<open>
  \<open>Create\<close> receives a pointer to the caller's \<open>params\<close> and writes to it, so the
  model returns the struct as it is after the call, next to the result and the trace.
  The destination handed to \<open>Post\<close> is the local \<open>resp\<close>, zero-initialised; its
  only field is the \<open>VoiceCall\<close>.
\<close>

definition Create ::
  "('e, CreateCallParams, VoiceCall, 'v) world \<Rightarrow> Client \<Rightarrow> CreateCallParams
     \<Rightarrow> (('e, 'v) error + VoiceCall) \<times> CreateCallParams \<times> event list" where
  "Create w c params =
     (if TTSMessage params = [] \<and> AudioURL params = [] then
        (Inl (Errorf ''either TTSMessage or AudioURL is required''), params, [])
      else
        let params1 = (if Voice params = [] then params\<lparr>Voice := ''alloy''\<rparr> else params);
            params2 = (if Language params1 = [] then params1\<lparr>Language := ''en-US''\<rparr>
                       else params1)
        in (case Post w c ''/calls'' (Some params2) (Some zero_VoiceCall) of
              (Some err, resp, tr) \<Rightarrow> (Inl err, params2, tr)
            | (None, resp, tr) \<Rightarrow>
                (Inr (case resp of None \<Rightarrow> zero_VoiceCall | Some data \<Rightarrow> data),
                 params2, tr)))"

section \<open>Vocabulary for the properties\<close>

text \<open>
  The statuses the loop retries, and the outcomes of \<open>httpClient.Do\<close> after which it
  goes round again while attempts are left: a transport error, or a response with such
  a status.
\<close>

definition retryable_status :: "int \<Rightarrow> bool" where
  "retryable_status s = (s = 429 \<or> s \<ge> 500)"

fun retried :: "'e + 'e http_Response \<Rightarrow> bool" where
  "retried (Inl err) = True"
| "retried (Inr resp) = retryable_status (resp_StatusCode resp)"

text \<open>
  \<open>ends_with w k resp\<close>: the call gets \<open>resp\<close> in iteration \<open>k\<close> and keeps it. Every
  earlier iteration was retried, and \<open>resp\<close> either has a status that is not retried or
  comes from the last iteration (\<open>k = 3\<close>).
\<close>

definition ends_with :: "('e, 'b, 'r, 'v) world \<Rightarrow> nat \<Rightarrow> 'e http_Response \<Rightarrow> bool" where
  "ends_with w k resp =
     (k \<le> 3 \<and> (\<forall>j < k. retried (httpClient_Do w j)) \<and> httpClient_Do w k = Inr resp
      \<and> (k = 3 \<or> \<not> retryable_status (resp_StatusCode resp)))"

text \<open>
  \<open>sendable\<close>: the steps before the loop succeed (the permit is granted, the body, if
  any, is serialised, the request is built) and the client has an HTTP client, so the
  call reaches \<open>httpClient.Do\<close>.
\<close>

definition sendable ::
  "('e, 'b, 'r, 'v) world \<Rightarrow> Client \<Rightarrow> string \<Rightarrow> string \<Rightarrow> 'b option \<Rightarrow> bool" where
  "sendable w c method path body =
     (rateLimiter_Wait w = None
      \<and> (case body of None \<Rightarrow> True | Some b \<Rightarrow> \<not> isl (json_Marshal w b))
      \<and> http_NewRequest w method (baseURL c @ path) = None
      \<and> httpClient c \<noteq> None)"

text \<open>The request that \<open>Request\<close> builds and hands to \<open>httpClient.Do\<close>.\<close>

definition built_request ::
  "('e, 'b, 'r, 'v) world \<Rightarrow> Client \<Rightarrow> string \<Rightarrow> string \<Rightarrow> 'b option \<Rightarrow> http_Request" where
  "built_request w c method path body =
     \<lparr>req_Method = method, req_URL = baseURL c @ path,
      req_Header = [''Authorization'' \<mapsto> ''Bearer '' @ apiKey c,
                    ''Content-Type'' \<mapsto> ''application/json'',
                    ''Accept'' \<mapsto> ''application/json'',
                    ''User-Agent'' \<mapsto> ''ekdsend-go/'' @ Version],
      req_Body = (case body of None \<Rightarrow> None
                  | Some b \<Rightarrow> (case json_Marshal w b of Inl err \<Rightarrow> None
                                | Inr jsonBody \<Rightarrow> Some jsonBody))\<rparr>"

text \<open>The trace of the iterations \<open>a, \<dots>, k - 1\<close> when each of them is retried.\<close>

definition retries_trace :: "http_Request \<Rightarrow> nat \<Rightarrow> nat \<Rightarrow> event list" where
  "retries_trace req a k = concat (map (\<lambda>j. [Do req, Sleep (2 ^ j * Second)]) [a..<k])"

section \<open>Example environments\<close>

text \<open>
  A client as \<open>New\<close> builds it, a server reply, and an environment in which the permit
  is granted, serialisation and request construction succeed, and the decoder of error
  envelopes knows one envelope. They are the concrete inputs of the examples below.
\<close>

definition test_client :: Client where
  "test_client =
     \<lparr>apiKey = ''ek_test_123'', baseURL = DefaultBaseURL,
      httpClient = Some \<lparr>Timeout = DefaultTimeout\<rparr>,
      rateLimiter = \<lparr>limit = 100, burst = 10\<rparr>, debug = False\<rparr>"

definition envelope_body :: string where
  \<open>envelope_body = ''{"error":{"message":"request rejected","code":"E1234","details":{"to":"invalid format"},"retry_after":7}}''\<close>

definition envelope :: "string errResp" where
  "envelope =
     \<lparr>Error_Message = ''request rejected'', Error_Code = ''E1234'',
      Error_Details = [''to'' \<mapsto> ''invalid format''], Error_RetryAfter = 7\<rparr>"

definition reply :: "int \<Rightarrow> string \<Rightarrow> string http_Response" where
  "reply s b =
     \<lparr>resp_StatusCode = s, resp_Header = [''x-request-id'' \<mapsto> ''req_42''],
      resp_Body = Inr b\<rparr>"

definition test_world ::
  "(nat \<Rightarrow> string + string http_Response) \<Rightarrow> (string \<Rightarrow> 'r \<Rightarrow> string option \<times> 'r)
     \<Rightarrow> (string, 'b, 'r, string) world" where
  "test_world server decode =
     \<lparr>rateLimiter_Wait = None,
      json_Marshal = (\<lambda>b. Inr ''{}''),
      http_NewRequest = (\<lambda>method url. None),
      httpClient_Do = server,
      json_Unmarshal = decode,
      json_Unmarshal_errResp =
        (\<lambda>body. if body = [] then Inl ''unexpected end of JSON input''
                else if body = envelope_body then Inr envelope
                else Inl ''invalid character'')\<rparr>"

text \<open>A decoder for an \<open>int\<close> destination that understands the body \<open>42\<close>.\<close>

definition decode_int :: "string \<Rightarrow> int \<Rightarrow> string option \<times> int" where
  "decode_int body dest =
     (if body = ''42'' then (None, 42) else (Some ''invalid character'', dest))"

text \<open>Parameters of a call with a spoken message, and parameters with nothing set.\<close>

definition zero_params :: CreateCallParams where
  "zero_params =
     \<lparr>To = [], From = [], TTSMessage = [], AudioURL = [], Voice = [], Language = [],
      Record = False, MachineDetection = False, WebhookURL = [], Metadata = Map.empty\<rparr>"

definition hello_params :: CreateCallParams where
  "hello_params = zero_params\<lparr>To := ''+15550100'', From := ''+15550199'',
      TTSMessage := ''Hello''\<rparr>"

text \<open>A decoder for a \<open>VoiceCall\<close> destination that fills in the call id.\<close>

definition decode_call :: "string \<Rightarrow> VoiceCall \<Rightarrow> string option \<times> VoiceCall" where
  "decode_call body dest =
     (if body = ''{}'' then (None, dest\<lparr>call_ID := ''call_1''\<rparr>)
      else (Some ''invalid character'', dest))"

section \<open>Properties\<close>

subsection \<open>The retry loop\<close>

lemma retries_trace_same [simp]: "retries_trace req a a = []"
  by (simp add: retries_trace_def)

lemma retries_trace_Suc:
  "a \<le> k \<Longrightarrow> retries_trace req a (Suc k) = retries_trace req a k @ [Do req, Sleep (2 ^ k * Second)]"
  by (simp add: retries_trace_def)

lemma attempts_retried_step:
  assumes "retried (httpClient_Do w k)" and "k < m"
  shows "attempts w req m k tr = attempts w req m (Suc k) (tr @ [Do req, Sleep (2 ^ k * Second)])"
proof (cases "httpClient_Do w k")
  case (Inl err)
  with assms(2) show ?thesis by (subst attempts.simps) simp
next
  case (Inr resp)
  with assms show ?thesis by (subst attempts.simps) (simp add: retryable_status_def)
qed

lemma attempts_skip:
  assumes "a \<le> k" and "k \<le> m" and "\<forall>j. a \<le> j \<and> j < k \<longrightarrow> retried (httpClient_Do w j)"
  shows "attempts w req m a tr = attempts w req m k (tr @ retries_trace req a k)"
  using assms
proof (induction k)
  case 0
  then show ?case by simp
next
  case (Suc k)
  show ?case
  proof (cases "a = Suc k")
    case True
    then show ?thesis by simp
  next
    case False
    with Suc.prems have le: "a \<le> k" and km: "k < m" by auto
    have "attempts w req m a tr = attempts w req m k (tr @ retries_trace req a k)"
      using Suc.IH le km Suc.prems(3) by simp
    also have "\<dots> = attempts w req m (Suc k)
                      ((tr @ retries_trace req a k) @ [Do req, Sleep (2 ^ k * Second)])"
      using Suc.prems(3) le km by (intro attempts_retried_step) auto
    finally show ?thesis using le by (simp add: retries_trace_Suc)
  qed
qed

lemma attempts_keep:
  assumes "httpClient_Do w k = Inr resp" and "k \<le> m"
    and "k = m \<or> \<not> retryable_status (resp_StatusCode resp)"
  shows "attempts w req m k tr = (tr @ [Do req], Got resp)"
  using assms by (subst attempts.simps) (auto simp: retryable_status_def)

lemma attempts_fail_last:
  assumes "httpClient_Do w m = Inl err"
  shows "attempts w req m m tr = (tr @ [Do req], Failed err)"
  using assms by (subst attempts.simps) simp

lemma attempts_ends_with:
  assumes "ends_with w k resp"
  shows "attempts w req 3 0 [] = (retries_trace req 0 k @ [Do req], Got resp)"
proof -
  from assms have k: "k \<le> 3" and early: "\<forall>j. 0 \<le> j \<and> j < k \<longrightarrow> retried (httpClient_Do w j)"
    and at: "httpClient_Do w k = Inr resp"
    and stop: "k = 3 \<or> \<not> retryable_status (resp_StatusCode resp)"
    by (auto simp: ends_with_def)
  have "attempts w req 3 0 [] = attempts w req 3 k ([] @ retries_trace req 0 k)"
    using k early by (intro attempts_skip) auto
  also have "\<dots> = (([] @ retries_trace req 0 k) @ [Do req], Got resp)"
    using at k stop by (intro attempts_keep) auto
  finally show ?thesis by simp
qed

lemma retries_trace_0_3:
  "retries_trace req 0 3 =
     [Do req, Sleep (1 * Second), Do req, Sleep (2 * Second), Do req, Sleep (4 * Second)]"
proof -
  have "[0..<3] = [0, 1, 2]" by (simp add: upt_rec)
  then show ?thesis by (simp add: retries_trace_def)
qed

subsection \<open>From the call to the loop\<close>

lemma Request_sendable:
  assumes "sendable w c method path body"
  shows "Request w c method path body result =
     (case attempts w (built_request w c method path body) 3 0 [] of
        (tr, Failed err) \<Rightarrow> (Some (ErrorfW ''request failed'' err), result, tr)
      | (tr, NoResponse) \<Rightarrow> (Some (Panic ''nil pointer dereference''), result, tr)
      | (tr, Got resp) \<Rightarrow>
     (case resp_Body resp of
        Inl err \<Rightarrow> (Some (ErrorfW ''failed to read response body'' err), result, tr)
      | Inr respBody \<Rightarrow>
          if resp_StatusCode resp \<ge> 400 then
            (Some (APIError (handleError w (resp_StatusCode resp) respBody
                               (Header_Get (resp_Header resp) ''x-request-id''))),
             result, tr)
          else
            (case result of
               None \<Rightarrow> (None, result, tr)
             | Some dest \<Rightarrow>
                 if length respBody > 0 then
                   (case json_Unmarshal w respBody dest of
                      (Some err, dest') \<Rightarrow>
                        (Some (ErrorfW ''failed to parse response'' err), Some dest', tr)
                    | (None, dest') \<Rightarrow> (None, Some dest', tr))
                 else (None, result, tr))))"
proof -
  from assms obtain hc where hc: "httpClient c = Some hc"
    by (auto simp: sendable_def)
  show ?thesis
  proof (cases body)
    case None
    with assms hc show ?thesis
      by (simp add: Request_def sendable_def built_request_def Header_Set_def Let_def)
  next
    case (Some b)
    with assms obtain jsonBody where "json_Marshal w b = Inr jsonBody"
      by (cases "json_Marshal w b") (auto simp: sendable_def)
    with Some assms hc show ?thesis
      by (simp add: Request_def sendable_def built_request_def Header_Set_def Let_def)
  qed
qed

lemma Request_final:
  assumes "sendable w c method path body" and "ends_with w k resp"
    and "req = built_request w c method path body"
    and "tr = retries_trace req 0 k @ [Do req]"
  shows "Request w c method path body result =
     (case resp_Body resp of
        Inl err \<Rightarrow> (Some (ErrorfW ''failed to read response body'' err), result, tr)
      | Inr respBody \<Rightarrow>
          if resp_StatusCode resp \<ge> 400 then
            (Some (APIError (handleError w (resp_StatusCode resp) respBody
                               (Header_Get (resp_Header resp) ''x-request-id''))),
             result, tr)
          else
            (case result of
               None \<Rightarrow> (None, result, tr)
             | Some dest \<Rightarrow>
                 if length respBody > 0 then
                   (case json_Unmarshal w respBody dest of
                      (Some err, dest') \<Rightarrow>
                        (Some (ErrorfW ''failed to parse response'' err), Some dest', tr)
                    | (None, dest') \<Rightarrow> (None, Some dest', tr))
                 else (None, result, tr)))"
  unfolding Request_sendable [OF assms(1)] assms(3) [symmetric]
    attempts_ends_with [OF assms(2)] assms(4) [symmetric]
  by simp

lemma Request_transport_failure:
  assumes "sendable w c method path body" and "\<forall>j < 3. retried (httpClient_Do w j)"
    and "httpClient_Do w 3 = Inl err" and "req = built_request w c method path body"
  shows "Request w c method path body result =
           (Some (ErrorfW ''request failed'' err), result, retries_trace req 0 3 @ [Do req])"
proof -
  have "attempts w req 3 0 [] = attempts w req 3 3 ([] @ retries_trace req 0 3)"
    using assms(2) by (intro attempts_skip) auto
  also have "\<dots> = (([] @ retries_trace req 0 3) @ [Do req], Failed err)"
    using assms(3) by (rule attempts_fail_last)
  finally show ?thesis
    unfolding Request_sendable [OF assms(1)] assms(4) [symmetric] by simp
qed

lemma handleError_malformed:
  assumes "json_Unmarshal_errResp w body = Inl derr"
  shows "handleError w statusCode body requestID =
           Base \<lparr>Message = ''API request failed'', StatusCode = statusCode,
                 Code = ''UNKNOWN_ERROR'', RequestID = requestID\<rparr>"
  using assms by (simp add: handleError_def)

lemma handleError_carries:
  "StatusCode (embedded (handleError w statusCode body requestID)) = statusCode
   \<and> RequestID (embedded (handleError w statusCode body requestID)) = requestID"
  by (simp add: handleError_def split: sum.splits)

subsection \<open>The example environments\<close>

lemma envelope_body_nonempty: "envelope_body \<noteq> []"
  by (simp add: envelope_body_def)

lemma test_world_sel:
  "rateLimiter_Wait (test_world server decode) = None"
  "json_Marshal (test_world server decode) b = Inr ''{}''"
  "http_NewRequest (test_world server decode) method url = None"
  "httpClient_Do (test_world server decode) = server"
  "json_Unmarshal (test_world server decode) = decode"
  "json_Unmarshal_errResp (test_world server decode) [] = Inl ''unexpected end of JSON input''"
  "json_Unmarshal_errResp (test_world server decode) envelope_body = Inr envelope"
  by (simp_all add: test_world_def envelope_body_nonempty)

lemma sendable_test_world:
  "sendable (test_world server decode) test_client method path body"
  by (cases body) (simp_all add: sendable_def test_world_sel test_client_def)

lemma ends_with_first:
  "\<not> retryable_status s \<Longrightarrow> ends_with (test_world (\<lambda>k. Inr (reply s b)) decode) 0 (reply s b)"
  by (simp add: ends_with_def test_world_sel reply_def)

lemma ends_with_last:
  "retryable_status s \<Longrightarrow> ends_with (test_world (\<lambda>k. Inr (reply s b)) decode) 3 (reply s b)"
  by (simp add: ends_with_def test_world_sel reply_def)


lemma html_body_malformed:
  "json_Unmarshal_errResp (test_world server decode) ''<html>Bad Gateway</html>''
     = Inl ''invalid character''"
  by (simp add: test_world_def envelope_body_def)

lemma reply_sel:
  "resp_StatusCode (reply s b) = s"
  "resp_Body (reply s b) = Inr b"
  "Header_Get (resp_Header (reply s b)) ''x-request-id'' = ''req_42''"
  by (simp_all add: reply_def Header_Get_def)

subsection \<open>Client construction\<close>

lemma apply_opts_returning:
  assumes "\<forall>opt \<in> set opts. \<exists>f. opt = Some f \<and> (\<forall>c. f c \<noteq> None)"
  shows "\<exists>c'. apply_opts c opts = Some c'"
  using assms
proof (induction opts arbitrary: c)
  case Nil
  then show ?case by simp
next
  case (Cons opt opts)
  then obtain f where f: "opt = Some f" "\<forall>c. f c \<noteq> None" by auto
  from f(2) have "f c \<noteq> None" by blast
  then obtain c1 where "f c = Some c1" by (cases "f c") simp_all
  with f Cons show ?case by simp
qed

text \<open>
  Validation is not the only way construction can end without a client: a \<open>nil\<close>
  option, or \<open>WithTimeout\<close> after \<open>WithHTTPClient(nil)\<close>, makes \<open>New\<close> panic.
\<close>

lemma New_option_panics:
  "(New ''ek_live_123'' [None] :: (unit, unit) error + Client)
     = Inl (Panic ''nil pointer dereference'')"
  "(New ''ek_live_123'' [WithHTTPClient None, WithTimeout (5 * Second)]
      :: (unit, unit) error + Client) = Inl (Panic ''nil pointer dereference'')"
  by (simp_all add: New_def HasPrefix_def WithHTTPClient_def WithTimeout_def)

text \<open>
  C5. For every API key that is empty or starts with neither \<open>ek_live_\<close> nor
  \<open>ek_test_\<close>, \<open>New\<close> fails with a configuration error, whatever the options: the
  check comes before any option is called, and \<open>New\<close> has no access to the network at
  all. For every key with one of the two prefixes the check passes: \<open>New\<close> never
  returns a configuration error, without options it returns the client holding the key
  and the defaults, and with options it returns a client whenever every option is a
  function that returns normally.
\<close>

theorem New_validates_key:
  fixes opts :: "ClientOption list"
  shows "(key = [] \<or> (\<not> HasPrefix key ''ek_live_'' \<and> \<not> HasPrefix key ''ek_test_'')
            \<longrightarrow> (\<exists>msg. (New key opts :: ('e, 'v) error + Client) = Inl (Errorf msg)))
       \<and> (HasPrefix key ''ek_live_'' \<or> HasPrefix key ''ek_test_''
            \<longrightarrow> (New key [] :: ('e, 'v) error + Client) =
                  Inr \<lparr>apiKey = key, baseURL = DefaultBaseURL,
                       httpClient = Some \<lparr>Timeout = DefaultTimeout\<rparr>,
                       rateLimiter = \<lparr>limit = 100, burst = 10\<rparr>, debug = False\<rparr>
              \<and> (\<forall>msg. (New key opts :: ('e, 'v) error + Client) \<noteq> Inl (Errorf msg))
              \<and> ((\<forall>opt \<in> set opts. \<exists>f. opt = Some f \<and> (\<forall>c. f c \<noteq> None))
                    \<longrightarrow> (\<exists>c. (New key opts :: ('e, 'v) error + Client) = Inr c)))"
proof -
  have ne: "HasPrefix key ''ek_live_'' \<or> HasPrefix key ''ek_test_'' \<Longrightarrow> key \<noteq> []"
    by (auto simp: HasPrefix_def)
  have bad: "key = [] \<or> (\<not> HasPrefix key ''ek_live_'' \<and> \<not> HasPrefix key ''ek_test_'')
            \<longrightarrow> (\<exists>msg. (New key opts :: ('e, 'v) error + Client) = Inl (Errorf msg))"
    by (auto simp: New_def)
  have good: "(New key [] :: ('e, 'v) error + Client) =
                  Inr \<lparr>apiKey = key, baseURL = DefaultBaseURL,
                       httpClient = Some \<lparr>Timeout = DefaultTimeout\<rparr>,
                       rateLimiter = \<lparr>limit = 100, burst = 10\<rparr>, debug = False\<rparr>
              \<and> (\<forall>msg. (New key opts :: ('e, 'v) error + Client) \<noteq> Inl (Errorf msg))
              \<and> ((\<forall>opt \<in> set opts. \<exists>f. opt = Some f \<and> (\<forall>c. f c \<noteq> None))
                    \<longrightarrow> (\<exists>c. (New key opts :: ('e, 'v) error + Client) = Inr c))"
    if p: "HasPrefix key ''ek_live_'' \<or> HasPrefix key ''ek_test_''"
  proof (intro conjI allI impI)
    show "(New key [] :: ('e, 'v) error + Client) =
                  Inr \<lparr>apiKey = key, baseURL = DefaultBaseURL,
                       httpClient = Some \<lparr>Timeout = DefaultTimeout\<rparr>,
                       rateLimiter = \<lparr>limit = 100, burst = 10\<rparr>, debug = False\<rparr>"
      using p ne by (auto simp: New_def)
  next
    fix msg
    show "(New key opts :: ('e, 'v) error + Client) \<noteq> Inl (Errorf msg)"
      using p ne by (auto simp: New_def Let_def split: option.splits)
  next
    assume "\<forall>opt \<in> set opts. \<exists>f. opt = Some f \<and> (\<forall>c. f c \<noteq> None)"
    from apply_opts_returning [OF this]
    show "\<exists>c. (New key opts :: ('e, 'v) error + Client) = Inr c"
      using p ne by (auto simp: New_def Let_def split: option.splits)
  qed
  from bad good show ?thesis by blast
qed

theorem New_validates_key_witness:
  "(New [] [None] :: (unit, unit) error + Client) = Inl (Errorf ''API key is required'')
   \<and> (\<exists>msg. (New ''sk_live_123'' [WithDebug True] :: (unit, unit) error + Client)
              = Inl (Errorf msg))
   \<and> (New ''ek_test_123'' [] :: (unit, unit) error + Client) = Inr test_client
   \<and> (\<exists>c. (New ''ek_live_123'' [WithDebug True, WithBaseURL ''http://localhost:8080/'']
              :: (unit, unit) error + Client) = Inr c)"
  using New_validates_key [where 'e = unit and 'v = unit, of "[]" "[None]"]
    New_validates_key [where 'e = unit and 'v = unit, of "''sk_live_123''" "[WithDebug True]"]
    New_validates_key [where 'e = unit and 'v = unit, of "''ek_test_123''" "[]"]
    New_validates_key [where 'e = unit and 'v = unit, of "''ek_live_123''"
      "[WithDebug True, WithBaseURL ''http://localhost:8080/'']"]
  by (simp add: New_def HasPrefix_def test_client_def WithDebug_def WithBaseURL_def)

subsection \<open>The rate limiter\<close>

text \<open>
  C7. When waiting for the permit fails (the caller's cancellation fired first),
  \<open>Request\<close> returns at once the error \<open>rate limiter error\<close> wrapping the limiter's
  error: nothing is sent and nothing is slept (the trace is empty), the destination is
  untouched, and the error is none of the API errors made from a server response and
  not the error of a failed transport.
\<close>

theorem Request_limiter_cancelled:
  assumes "rateLimiter_Wait w = Some err"
  shows "Request w c method path body result
           = (Some (ErrorfW ''rate limiter error'' err), result, [])
       \<and> (\<forall>a. fst (Request w c method path body result) \<noteq> Some (APIError a))
       \<and> (\<forall>e. fst (Request w c method path body result) \<noteq> Some (ErrorfW ''request failed'' e))"
  using assms by (simp add: Request_def)

theorem Request_limiter_cancelled_witness:
  "Request ((test_world (\<lambda>k. Inr (reply 200 [])) decode_int)
              \<lparr>rateLimiter_Wait := Some ''context canceled''\<rparr>)
           test_client ''GET'' ''/emails'' (None :: unit option) (Some 0)
     = (Some (ErrorfW ''rate limiter error'' ''context canceled''), Some 0, [])"
  using Request_limiter_cancelled
    [of "(test_world (\<lambda>k. Inr (reply 200 [])) decode_int)
           \<lparr>rateLimiter_Wait := Some ''context canceled''\<rparr>"
        "''context canceled''" test_client "''GET''" "''/emails''" "None :: unit option" "Some 0"]
  by (simp add: test_world_def)

subsection \<open>Error classification\<close>

text \<open>
  C1 (as amended). When the response the call ends with has a status of 400 or more and
  its body decodes as an error envelope, the executor returns the typed error selected
  by the status: 400 gives a \<open>ValidationError\<close> with the envelope's detail map, 401 an
  \<open>AuthenticationError\<close>, 404 a \<open>NotFoundError\<close>, 429 (which is only kept once the
  retries are used up) a \<open>RateLimitError\<close> with the envelope's retry-after, and every
  other status the base error. The message comes from the envelope, the status code
  from the response and the request id from the \<open>x-request-id\<close> header. The machine
  code comes from the envelope only for 404 and for the base error; for 400, 401 and 429
  it is the fixed string \<open>VALIDATION_ERROR\<close>, \<open>AUTHENTICATION_ERROR\<close>,
  \<open>RATE_LIMIT_EXCEEDED\<close>.
\<close>

theorem typed_error_by_status:
  assumes "sendable w c method path body" and "ends_with w k resp"
    and "resp_Body resp = Inr respBody"
    and "json_Unmarshal_errResp w respBody = Inr env"
    and "resp_StatusCode resp \<ge> 400"
    and "s = resp_StatusCode resp"
    and "rid = Header_Get (resp_Header resp) ''x-request-id''"
  shows "\<exists>a. fst (Request w c method path body result) = Some (APIError a)
     \<and> (s = 400 \<longrightarrow> a = ValidationError
            \<lparr>Message = Error_Message env, StatusCode = 400, Code = ''VALIDATION_ERROR'',
             RequestID = rid\<rparr> (Error_Details env))
     \<and> (s = 401 \<longrightarrow> a = AuthenticationError
            \<lparr>Message = Error_Message env, StatusCode = 401, Code = ''AUTHENTICATION_ERROR'',
             RequestID = rid\<rparr>)
     \<and> (s = 404 \<longrightarrow> a = NotFoundError
            \<lparr>Message = Error_Message env, StatusCode = 404, Code = Error_Code env,
             RequestID = rid\<rparr>)
     \<and> (s = 429 \<longrightarrow> a = RateLimitError
            \<lparr>Message = Error_Message env, StatusCode = 429, Code = ''RATE_LIMIT_EXCEEDED'',
             RequestID = rid\<rparr> (Error_RetryAfter env))
     \<and> (s \<noteq> 400 \<and> s \<noteq> 401 \<and> s \<noteq> 404 \<and> s \<noteq> 429 \<longrightarrow> a = Base
            \<lparr>Message = Error_Message env, StatusCode = s, Code = Error_Code env,
             RequestID = rid\<rparr>)"
  using assms(3-7)
  by (simp add: Request_final [OF assms(1) assms(2) refl refl] handleError_def)

theorem typed_error_by_status_witness:
  "fst (Request (test_world (\<lambda>k. Inr (reply 400 envelope_body)) decode_int) test_client
          ''GET'' ''/emails'' (None :: unit option) (Some 0))
     = Some (APIError (ValidationError
         \<lparr>Message = ''request rejected'', StatusCode = 400, Code = ''VALIDATION_ERROR'',
          RequestID = ''req_42''\<rparr> [''to'' \<mapsto> ''invalid format'']))
   \<and> fst (Request (test_world (\<lambda>k. Inr (reply 429 envelope_body)) decode_int) test_client
          ''GET'' ''/emails'' (None :: unit option) (Some 0))
     = Some (APIError (RateLimitError
         \<lparr>Message = ''request rejected'', StatusCode = 429, Code = ''RATE_LIMIT_EXCEEDED'',
          RequestID = ''req_42''\<rparr> 7))
   \<and> fst (Request (test_world (\<lambda>k. Inr (reply 403 envelope_body)) decode_int) test_client
          ''GET'' ''/emails'' (None :: unit option) (Some 0))
     = Some (APIError (Base
         \<lparr>Message = ''request rejected'', StatusCode = 403, Code = ''E1234'',
          RequestID = ''req_42''\<rparr>))"
proof -
  have e400: "ends_with (test_world (\<lambda>k. Inr (reply 400 envelope_body)) decode_int
                :: (string, unit, int, string) world) 0 (reply 400 envelope_body)"
    by (rule ends_with_first) (simp add: retryable_status_def)
  have e429: "ends_with (test_world (\<lambda>k. Inr (reply 429 envelope_body)) decode_int
                :: (string, unit, int, string) world) 3 (reply 429 envelope_body)"
    by (rule ends_with_last) (simp add: retryable_status_def)
  have e403: "ends_with (test_world (\<lambda>k. Inr (reply 403 envelope_body)) decode_int
                :: (string, unit, int, string) world) 0 (reply 403 envelope_body)"
    by (rule ends_with_first) (simp add: retryable_status_def)
  have ge: "resp_StatusCode (reply 400 envelope_body) \<ge> 400"
    "resp_StatusCode (reply 429 envelope_body) \<ge> 400"
    "resp_StatusCode (reply 403 envelope_body) \<ge> 400"
    by (simp_all add: reply_sel)
  note a = typed_error_by_status
      [OF sendable_test_world e400 reply_sel(2) test_world_sel(7) ge(1) reply_sel(1) [symmetric]
          reply_sel(3) [symmetric], of "''GET''" "''/emails''" None "Some 0"]
  note b = typed_error_by_status
      [OF sendable_test_world e429 reply_sel(2) test_world_sel(7) ge(2) reply_sel(1) [symmetric]
          reply_sel(3) [symmetric], of "''GET''" "''/emails''" None "Some 0"]
  note c = typed_error_by_status
      [OF sendable_test_world e403 reply_sel(2) test_world_sel(7) ge(3) reply_sel(1) [symmetric]
          reply_sel(3) [symmetric], of "''GET''" "''/emails''" None "Some 0"]
  from a have "fst (Request (test_world (\<lambda>k. Inr (reply 400 envelope_body)) decode_int)
          test_client ''GET'' ''/emails'' (None :: unit option) (Some 0))
     = Some (APIError (ValidationError
         \<lparr>Message = ''request rejected'', StatusCode = 400, Code = ''VALIDATION_ERROR'',
          RequestID = ''req_42''\<rparr> [''to'' \<mapsto> ''invalid format'']))"
    by (auto simp: envelope_def)
  moreover from b have "fst (Request (test_world (\<lambda>k. Inr (reply 429 envelope_body)) decode_int)
          test_client ''GET'' ''/emails'' (None :: unit option) (Some 0))
     = Some (APIError (RateLimitError
         \<lparr>Message = ''request rejected'', StatusCode = 429, Code = ''RATE_LIMIT_EXCEEDED'',
          RequestID = ''req_42''\<rparr> 7))"
    by (auto simp: envelope_def)
  moreover from c have "fst (Request (test_world (\<lambda>k. Inr (reply 403 envelope_body)) decode_int)
          test_client ''GET'' ''/emails'' (None :: unit option) (Some 0))
     = Some (APIError (Base
         \<lparr>Message = ''request rejected'', StatusCode = 403, Code = ''E1234'',
          RequestID = ''req_42''\<rparr>))"
    by (auto simp: envelope_def)
  ultimately show ?thesis by blast
qed

text \<open>
  The claim as stated has the machine code populated from the envelope for all four
  statuses. A 401 whose envelope carries the code \<open>E1234\<close> comes back with the code
  \<open>AUTHENTICATION_ERROR\<close>.
\<close>

theorem typed_error_code_counterexample:
  "json_Unmarshal_errResp
       (test_world (\<lambda>k. Inr (reply 401 envelope_body)) decode_int
          :: (string, unit, int, string) world) envelope_body = Inr envelope
   \<and> Error_Code envelope = ''E1234''
   \<and> fst (Request (test_world (\<lambda>k. Inr (reply 401 envelope_body)) decode_int) test_client
          ''GET'' ''/emails'' (None :: unit option) (Some 0))
     = Some (APIError (AuthenticationError
         \<lparr>Message = ''request rejected'', StatusCode = 401, Code = ''AUTHENTICATION_ERROR'',
          RequestID = ''req_42''\<rparr>))
   \<and> ''AUTHENTICATION_ERROR'' \<noteq> Error_Code envelope"
proof -
  have e: "ends_with (test_world (\<lambda>k. Inr (reply 401 envelope_body)) decode_int
                        :: (string, unit, int, string) world) 0 (reply 401 envelope_body)"
    by (rule ends_with_first) (simp add: retryable_status_def)
  have "fst (Request (test_world (\<lambda>k. Inr (reply 401 envelope_body)) decode_int) test_client
          ''GET'' ''/emails'' (None :: unit option) (Some 0))
     = Some (APIError (AuthenticationError
         \<lparr>Message = ''request rejected'', StatusCode = 401, Code = ''AUTHENTICATION_ERROR'',
          RequestID = ''req_42''\<rparr>))"
    unfolding Request_final [OF sendable_test_world e refl refl]
    by (simp add: reply_sel handleError_def test_world_sel envelope_def)
  then show ?thesis
    by (simp add: test_world_sel envelope_def)
qed

text \<open>
  C3. When the response the call ends with has a status of 400 or more and its body
  does not decode as an error envelope (\<open>json.Unmarshal\<close> fails, as it does on an
  empty body), the executor still returns a typed error: the base error with the
  message \<open>API request failed\<close>, the code \<open>UNKNOWN_ERROR\<close>, the status code of the
  response and the request id of its \<open>x-request-id\<close> header (empty when the header is
  absent). The decoding failure itself is not returned.
\<close>

theorem malformed_error_body:
  assumes "sendable w c method path body" and "ends_with w k resp"
    and "resp_Body resp = Inr respBody"
    and "json_Unmarshal_errResp w respBody = Inl derr"
    and "resp_StatusCode resp \<ge> 400"
  shows "fst (Request w c method path body result) =
           Some (APIError (Base
             \<lparr>Message = ''API request failed'', StatusCode = resp_StatusCode resp,
              Code = ''UNKNOWN_ERROR'',
              RequestID = Header_Get (resp_Header resp) ''x-request-id''\<rparr>))
       \<and> fst (snd (Request w c method path body result)) = result"
  using assms(3,5)
  by (simp add: Request_final [OF assms(1) assms(2) refl refl]
      handleError_malformed [OF assms(4)])

theorem malformed_error_body_witness:
  "fst (Request (test_world (\<lambda>k. Inr (reply 400 [])) decode_int) test_client
          ''GET'' ''/emails'' (None :: unit option) (Some 0))
     = Some (APIError (Base
         \<lparr>Message = ''API request failed'', StatusCode = 400, Code = ''UNKNOWN_ERROR'',
          RequestID = ''req_42''\<rparr>))
   \<and> fst (Request (test_world (\<lambda>k. Inr (reply 502 ''<html>Bad Gateway</html>'')) decode_int)
          test_client ''GET'' ''/emails'' (None :: unit option) (Some 0))
     = Some (APIError (Base
         \<lparr>Message = ''API request failed'', StatusCode = 502, Code = ''UNKNOWN_ERROR'',
          RequestID = ''req_42''\<rparr>))"
proof -
  have e400: "ends_with (test_world (\<lambda>k. Inr (reply 400 [])) decode_int
                :: (string, unit, int, string) world) 0 (reply 400 [])"
    by (rule ends_with_first) (simp add: retryable_status_def)
  have e502: "ends_with (test_world (\<lambda>k. Inr (reply 502 ''<html>Bad Gateway</html>'')) decode_int
                :: (string, unit, int, string) world) 3 (reply 502 ''<html>Bad Gateway</html>'')"
    by (rule ends_with_last) (simp add: retryable_status_def)
  have ge: "resp_StatusCode (reply 400 []) \<ge> 400"
    "resp_StatusCode (reply 502 ''<html>Bad Gateway</html>'') \<ge> 400"
    by (simp_all add: reply_sel)
  note a = malformed_error_body
      [OF sendable_test_world e400 reply_sel(2) test_world_sel(6) ge(1),
       of "''GET''" "''/emails''" None "Some 0"]
  note b = malformed_error_body
      [OF sendable_test_world e502 reply_sel(2) html_body_malformed ge(2),
       of "''GET''" "''/emails''" None "Some 0"]
  from a b show ?thesis by (simp add: reply_sel)
qed

subsection \<open>Retries\<close>

lemma retried_status_ge_400:
  "retryable_status s \<Longrightarrow> s \<ge> 400"
  by (auto simp: retryable_status_def)

text \<open>
  C2. When every attempt is retried (each of the four calls of \<open>httpClient.Do\<close> ends
  in a transport error or in a response with status 429 or at least 500, so in
  particular when the server always answers 429 or 5xx and when the transport always
  fails), the call makes exactly four sends and sleeps 1s, 2s and 4s between them, and
  then gives up. If the last attempt failed in the transport, the call returns
  \<open>request failed\<close> wrapping that last error; if it brought a response, the call goes
  on to classify that last response (its body permitting to be read).
\<close>

theorem retries_exhausted:
  assumes "sendable w c method path body"
    and "\<forall>j \<le> 3. retried (httpClient_Do w j)"
    and "req = built_request w c method path body"
  shows "snd (snd (Request w c method path body result)) =
           [Do req, Sleep (1 * Second), Do req, Sleep (2 * Second), Do req,
            Sleep (4 * Second), Do req]
       \<and> fst (Request w c method path body result) =
           (case httpClient_Do w 3 of
              Inl err \<Rightarrow> Some (ErrorfW ''request failed'' err)
            | Inr resp \<Rightarrow>
                (case resp_Body resp of
                   Inl err \<Rightarrow> Some (ErrorfW ''failed to read response body'' err)
                 | Inr respBody \<Rightarrow>
                     Some (APIError (handleError w (resp_StatusCode resp) respBody
                             (Header_Get (resp_Header resp) ''x-request-id'')))))"
proof (cases "httpClient_Do w 3")
  case (Inl err)
  have "\<forall>j < 3. retried (httpClient_Do w j)"
    using assms(2) by simp
  from Request_transport_failure [OF assms(1) this Inl assms(3)] Inl
  show ?thesis by (simp add: retries_trace_0_3)
next
  case (Inr resp)
  have "retried (httpClient_Do w 3)"
    using assms(2) by simp
  with Inr have r: "retryable_status (resp_StatusCode resp)" by simp
  have "ends_with w 3 resp"
    using assms(2) Inr by (simp add: ends_with_def)
  from Request_final [OF assms(1) this assms(3) refl] Inr retried_status_ge_400 [OF r]
  show ?thesis by (simp add: retries_trace_0_3 split: sum.splits)
qed

theorem retries_exhausted_witness:
  "Request (test_world (\<lambda>k. Inl ''connection refused'') decode_int) test_client
          ''GET'' ''/emails'' (None :: unit option) (Some 0)
     = (Some (ErrorfW ''request failed'' ''connection refused''), Some 0,
        [Do (built_request (test_world (\<lambda>k. Inl ''connection refused'') decode_int
               :: (string, unit, int, string) world) test_client ''GET'' ''/emails'' None),
         Sleep 1000000000,
         Do (built_request (test_world (\<lambda>k. Inl ''connection refused'') decode_int
               :: (string, unit, int, string) world) test_client ''GET'' ''/emails'' None),
         Sleep 2000000000,
         Do (built_request (test_world (\<lambda>k. Inl ''connection refused'') decode_int
               :: (string, unit, int, string) world) test_client ''GET'' ''/emails'' None),
         Sleep 4000000000,
         Do (built_request (test_world (\<lambda>k. Inl ''connection refused'') decode_int
               :: (string, unit, int, string) world) test_client ''GET'' ''/emails'' None)])
   \<and> fst (Request (test_world (\<lambda>k. Inr (reply 503 envelope_body)) decode_int) test_client
          ''GET'' ''/emails'' (None :: unit option) (Some 0))
     = Some (APIError (Base
         \<lparr>Message = ''request rejected'', StatusCode = 503, Code = ''E1234'',
          RequestID = ''req_42''\<rparr>))
   \<and> length (snd (snd (Request (test_world (\<lambda>k. Inr (reply 503 envelope_body)) decode_int)
          test_client ''GET'' ''/emails'' (None :: unit option) (Some 0)))) = 7"
proof -
  have r1: "\<forall>j \<le> 3. retried (httpClient_Do
              (test_world (\<lambda>k. Inl ''connection refused'') decode_int
                 :: (string, unit, int, string) world) j)"
    by (simp add: test_world_sel)
  have r2: "\<forall>j \<le> 3. retried (httpClient_Do
              (test_world (\<lambda>k. Inr (reply 503 envelope_body)) decode_int
                 :: (string, unit, int, string) world) j)"
    by (simp add: test_world_sel reply_sel retryable_status_def)
  note a = retries_exhausted [OF sendable_test_world r1 refl, of "''GET''" "''/emails''" None "Some 0"]
  note b = retries_exhausted [OF sendable_test_world r2 refl, of "''GET''" "''/emails''" None "Some 0"]
  have d: "fst (snd (Request (test_world (\<lambda>k. Inl ''connection refused'') decode_int) test_client
          ''GET'' ''/emails'' (None :: unit option) (Some 0))) = Some 0"
    by (simp add: Request_transport_failure [OF sendable_test_world _ _ refl] test_world_sel)
  have "Request (test_world (\<lambda>k. Inl ''connection refused'') decode_int) test_client
          ''GET'' ''/emails'' (None :: unit option) (Some 0)
     = (Some (ErrorfW ''request failed'' ''connection refused''), Some 0,
        [Do (built_request (test_world (\<lambda>k. Inl ''connection refused'') decode_int
               :: (string, unit, int, string) world) test_client ''GET'' ''/emails'' None),
         Sleep 1000000000,
         Do (built_request (test_world (\<lambda>k. Inl ''connection refused'') decode_int
               :: (string, unit, int, string) world) test_client ''GET'' ''/emails'' None),
         Sleep 2000000000,
         Do (built_request (test_world (\<lambda>k. Inl ''connection refused'') decode_int
               :: (string, unit, int, string) world) test_client ''GET'' ''/emails'' None),
         Sleep 4000000000,
         Do (built_request (test_world (\<lambda>k. Inl ''connection refused'') decode_int
               :: (string, unit, int, string) world) test_client ''GET'' ''/emails'' None)])"
    using a d by (simp add: prod_eq_iff test_world_sel Second_def)
  moreover have "fst (Request (test_world (\<lambda>k. Inr (reply 503 envelope_body)) decode_int)
          test_client ''GET'' ''/emails'' (None :: unit option) (Some 0))
     = Some (APIError (Base
         \<lparr>Message = ''request rejected'', StatusCode = 503, Code = ''E1234'',
          RequestID = ''req_42''\<rparr>))"
    using b by (simp add: test_world_sel reply_sel handleError_def envelope_def)
  moreover have "length (snd (snd (Request (test_world (\<lambda>k. Inr (reply 503 envelope_body))
          decode_int) test_client ''GET'' ''/emails'' (None :: unit option) (Some 0)))) = 7"
    using b by simp
  ultimately show ?thesis by blast
qed

subsection \<open>Responses below 400\<close>

lemma sendable_Unmarshal_update:
  "sendable (w\<lparr>json_Unmarshal := u\<rparr>) c method path body = sendable w c method path body"
  by (cases body) (simp_all add: sendable_def)

lemma ends_with_Unmarshal_update:
  "ends_with (w\<lparr>json_Unmarshal := u\<rparr>) k resp = ends_with w k resp"
  by (simp add: ends_with_def)

lemma built_request_Unmarshal_update:
  "built_request (w\<lparr>json_Unmarshal := u\<rparr>) c method path body
     = built_request w c method path body"
  by (cases body) (simp_all add: built_request_def)

text \<open>
  C6. When the response the call ends with has a status from 200 to 299 and an empty
  body, \<open>Request\<close> returns \<open>nil\<close> and leaves the destination as it was. It does not
  decode: the whole outcome is the same whatever \<open>json.Unmarshal\<close> would have done.
\<close>

theorem empty_body_success:
  assumes "sendable w c method path body" and "ends_with w k resp"
    and "200 \<le> resp_StatusCode resp" and "resp_StatusCode resp \<le> 299"
    and "resp_Body resp = Inr []"
  shows "fst (Request w c method path body result) = None
       \<and> fst (snd (Request w c method path body result)) = result
       \<and> Request (w\<lparr>json_Unmarshal := u\<rparr>) c method path body result
           = Request w c method path body result"
proof -
  have s': "sendable (w\<lparr>json_Unmarshal := u\<rparr>) c method path body"
    using assms(1) by (simp add: sendable_Unmarshal_update)
  have e': "ends_with (w\<lparr>json_Unmarshal := u\<rparr>) k resp"
    using assms(2) by (simp add: ends_with_Unmarshal_update)
  have lt: "\<not> 400 \<le> resp_StatusCode resp"
    using assms(4) by simp
  have a: "Request w c method path body result =
             (None, result,
              retries_trace (built_request w c method path body) 0 k
                @ [Do (built_request w c method path body)])"
    unfolding Request_final [OF assms(1) assms(2) refl refl]
    using assms(5) lt by (simp split: option.splits)
  have b: "Request (w\<lparr>json_Unmarshal := u\<rparr>) c method path body result =
             (None, result,
              retries_trace (built_request w c method path body) 0 k
                @ [Do (built_request w c method path body)])"
    unfolding Request_final [OF s' e' refl refl]
    using assms(5) lt by (simp add: built_request_Unmarshal_update split: option.splits)
  from a b show ?thesis by simp
qed

theorem empty_body_success_witness:
  "Request (test_world (\<lambda>k. Inr (reply 200 [])) decode_int) test_client
          ''DELETE'' ''/emails/em_1'' (None :: unit option) (Some 7)
     = (None, Some 7,
        [Do (built_request (test_world (\<lambda>k. Inr (reply 200 [])) decode_int
               :: (string, unit, int, string) world) test_client ''DELETE'' ''/emails/em_1''
               None)])
   \<and> Request ((test_world (\<lambda>k. Inr (reply 200 [])) decode_int)
                \<lparr>json_Unmarshal := \<lambda>b d. (Some ''never asked'', 99)\<rparr>) test_client
          ''DELETE'' ''/emails/em_1'' (None :: unit option) (Some 7)
     = Request (test_world (\<lambda>k. Inr (reply 200 [])) decode_int) test_client
          ''DELETE'' ''/emails/em_1'' (None :: unit option) (Some 7)"
proof -
  have e: "ends_with (test_world (\<lambda>k. Inr (reply 200 [])) decode_int
             :: (string, unit, int, string) world) 0 (reply 200 [])"
    by (rule ends_with_first) (simp add: retryable_status_def)
  have st: "200 \<le> resp_StatusCode (reply 200 [])" "resp_StatusCode (reply 200 []) \<le> 299"
    by (simp_all add: reply_sel)
  note a = empty_body_success [OF sendable_test_world e st reply_sel(2),
      of "''DELETE''" "''/emails/em_1''" None "Some 7" "\<lambda>b d. (Some ''never asked'', 99)"]
  have tr: "snd (snd (Request (test_world (\<lambda>k. Inr (reply 200 [])) decode_int) test_client
          ''DELETE'' ''/emails/em_1'' (None :: unit option) (Some 7)))
     = [Do (built_request (test_world (\<lambda>k. Inr (reply 200 [])) decode_int
               :: (string, unit, int, string) world) test_client ''DELETE'' ''/emails/em_1''
               None)]"
    by (simp add: Request_final [OF sendable_test_world e refl refl] reply_sel)
  from a tr show ?thesis by (simp add: prod_eq_iff)
qed

text \<open>
  C9 (as amended). When the response the call ends with has a status below 400 (a 3xx
  as much as a 2xx) and its body is read, \<open>Request\<close> never classifies it as an API
  error. With a \<open>nil\<close> destination or an empty body it returns \<open>nil\<close> and leaves the
  destination alone. Otherwise it decodes the body into the destination, and returns
  \<open>nil\<close> if decoding succeeds and the decoding error, wrapped as \<open>failed to parse
  response\<close>, if it does not.
\<close>

theorem below_400_is_success:
  assumes "sendable w c method path body" and "ends_with w k resp"
    and "resp_StatusCode resp < 400"
    and "resp_Body resp = Inr respBody"
  shows "(\<forall>a. fst (Request w c method path body result) \<noteq> Some (APIError a))
       \<and> (result = None \<or> respBody = [] \<longrightarrow>
            fst (Request w c method path body result) = None
            \<and> fst (snd (Request w c method path body result)) = result)
       \<and> (\<forall>dest. result = Some dest \<and> respBody \<noteq> [] \<longrightarrow>
            fst (Request w c method path body result)
              = map_option (ErrorfW ''failed to parse response'')
                  (fst (json_Unmarshal w respBody dest))
            \<and> fst (snd (Request w c method path body result))
              = Some (snd (json_Unmarshal w respBody dest)))"
proof -
  have lt: "\<not> 400 \<le> resp_StatusCode resp"
    using assms(3) by simp
  show ?thesis
    unfolding Request_final [OF assms(1) assms(2) refl refl]
    using assms(4) lt
    by (auto split: option.splits prod.splits)
qed

theorem below_400_is_success_witness:
  "Request (test_world (\<lambda>k. Inr (reply 300 ''42'')) decode_int) test_client
          ''GET'' ''/emails'' (None :: unit option) (Some 0)
     = (None, Some 42,
        [Do (built_request (test_world (\<lambda>k. Inr (reply 300 ''42'')) decode_int
               :: (string, unit, int, string) world) test_client ''GET'' ''/emails'' None)])
   \<and> fst (Request (test_world (\<lambda>k. Inr (reply 300 ''42'')) decode_int) test_client
          ''GET'' ''/emails'' (None :: unit option) None) = None"
proof -
  have e: "ends_with (test_world (\<lambda>k. Inr (reply 300 ''42'')) decode_int
             :: (string, unit, int, string) world) 0 (reply 300 ''42'')"
    by (rule ends_with_first) (simp add: retryable_status_def)
  have st: "resp_StatusCode (reply 300 ''42'') < 400"
    by (simp add: reply_sel)
  note a = below_400_is_success [OF sendable_test_world e st reply_sel(2),
      of "''GET''" "''/emails''" None "Some 0"]
  note b = below_400_is_success [OF sendable_test_world e st reply_sel(2),
      of "''GET''" "''/emails''" None None]
  have tr: "snd (snd (Request (test_world (\<lambda>k. Inr (reply 300 ''42'')) decode_int) test_client
          ''GET'' ''/emails'' (None :: unit option) (Some 0)))
     = [Do (built_request (test_world (\<lambda>k. Inr (reply 300 ''42'')) decode_int
               :: (string, unit, int, string) world) test_client ''GET'' ''/emails'' None)]"
    by (simp add: Request_final [OF sendable_test_world e refl refl] reply_sel test_world_sel
        decode_int_def)
  from a b tr show ?thesis
    by (simp add: prod_eq_iff test_world_sel decode_int_def)
qed

text \<open>
  The claim as stated says that no error is returned for any status below 400. A 200
  and a 300 whose body is not the JSON the destination expects both come back with the
  error \<open>failed to parse response\<close>.
\<close>

theorem below_400_parse_error_counterexample:
  "resp_StatusCode (reply 200 ''<html>OK</html>'') < 400
   \<and> fst (Request (test_world (\<lambda>k. Inr (reply 200 ''<html>OK</html>'')) decode_int)
          test_client ''GET'' ''/emails'' (None :: unit option) (Some 0))
     = Some (ErrorfW ''failed to parse response'' ''invalid character'')
   \<and> resp_StatusCode (reply 300 ''<html>OK</html>'') < 400
   \<and> fst (Request (test_world (\<lambda>k. Inr (reply 300 ''<html>OK</html>'')) decode_int)
          test_client ''GET'' ''/emails'' (None :: unit option) (Some 0))
     = Some (ErrorfW ''failed to parse response'' ''invalid character'')"
proof -
  have e200: "ends_with (test_world (\<lambda>k. Inr (reply 200 ''<html>OK</html>'')) decode_int
             :: (string, unit, int, string) world) 0 (reply 200 ''<html>OK</html>'')"
    by (rule ends_with_first) (simp add: retryable_status_def)
  have e300: "ends_with (test_world (\<lambda>k. Inr (reply 300 ''<html>OK</html>'')) decode_int
             :: (string, unit, int, string) world) 0 (reply 300 ''<html>OK</html>'')"
    by (rule ends_with_first) (simp add: retryable_status_def)
  show ?thesis
    by (simp add: Request_final [OF sendable_test_world e200 refl refl]
        Request_final [OF sendable_test_world e300 refl refl]
        reply_sel test_world_sel decode_int_def)
qed

subsection \<open>Voice calls\<close>

lemma attempts_trace_start:
  "a \<le> m \<Longrightarrow> \<exists>tr'. fst (attempts w req m a tr) = tr @ Do req # tr'"
proof (induction w req m a tr rule: attempts.induct)
  case (1 w req maxRetries attempt tr)
  show ?case
  proof (cases "httpClient_Do w attempt")
    case (Inl err)
    show ?thesis
    proof (cases "attempt < maxRetries")
      case True
      with "1.IH"(1) [OF "1.prems" Inl True] "1.prems" Inl show ?thesis
        by (subst attempts.simps) auto
    next
      case False
      with "1.prems" Inl show ?thesis by (subst attempts.simps) simp
    qed
  next
    case (Inr resp)
    show ?thesis
    proof (cases "(resp_StatusCode resp = 429 \<or> resp_StatusCode resp \<ge> 500)
                   \<and> attempt < maxRetries")
      case True
      with "1.IH"(2) [OF "1.prems" Inr True] "1.prems" Inr show ?thesis
        by (subst attempts.simps) auto
    next
      case False
      with "1.prems" Inr show ?thesis by (subst attempts.simps) auto
    qed
  qed
qed

lemma attempts_trace_events:
  "set (fst (attempts w req m a tr)) \<subseteq> set tr \<union> {Do req} \<union> range Sleep"
proof (induction w req m a tr rule: attempts.induct)
  case (1 w req maxRetries attempt tr)
  show ?case
  proof (cases "attempt \<le> maxRetries")
    case False
    then show ?thesis by (subst attempts.simps) auto
  next
    case le: True
    show ?thesis
    proof (cases "httpClient_Do w attempt")
      case (Inl err)
      show ?thesis
      proof (cases "attempt < maxRetries")
        case True
        with "1.IH"(1) [OF le Inl True] le Inl show ?thesis
          by (subst attempts.simps) auto
      next
        case False
        with le Inl show ?thesis by (subst attempts.simps) auto
      qed
    next
      case (Inr resp)
      show ?thesis
      proof (cases "(resp_StatusCode resp = 429 \<or> resp_StatusCode resp \<ge> 500)
                     \<and> attempt < maxRetries")
        case True
        with "1.IH"(2) [OF le Inr True] le Inr show ?thesis
          by (subst attempts.simps) auto
      next
        case False
        with le Inr show ?thesis by (subst attempts.simps) auto
      qed
    qed
  qed
qed

lemma Request_first_send:
  assumes "sendable w c method path body"
  shows "\<exists>tr'. snd (snd (Request w c method path body result))
           = Do (built_request w c method path body) # tr'"
proof -
  obtain tr' where "fst (attempts w (built_request w c method path body) 3 0 [])
                      = [] @ Do (built_request w c method path body) # tr'"
    using attempts_trace_start [of 0 3 w "built_request w c method path body" "[]"] by auto
  then show ?thesis
    unfolding Request_sendable [OF assms]
    by (cases "attempts w (built_request w c method path body) 3 0 []")
       (auto split: loop_result.splits sum.splits option.splits prod.splits)
qed

lemma Request_not_Errorf:
  "fst (Request w c method path body result) \<noteq> Some (Errorf msg)"
  by (auto simp: Request_def Let_def
      split: option.splits sum.splits prod.splits loop_result.splits)

lemma Request_sent_body:
  assumes "Do req \<in> set (snd (snd (Request w c method path (Some b) result)))"
  shows "\<exists>jsonBody. json_Marshal w b = Inr jsonBody \<and> req_Body req = Some jsonBody
           \<and> req_Method req = method \<and> req_URL req = baseURL c @ path"
proof (cases "sendable w c method path (Some b)")
  case False
  then have "snd (snd (Request w c method path (Some b) result)) = []"
    by (auto simp: Request_def sendable_def Let_def
        split: option.splits sum.splits)
  with assms show ?thesis by simp
next
  case True
  then obtain jsonBody where j: "json_Marshal w b = Inr jsonBody"
    by (cases "json_Marshal w b") (auto simp: sendable_def)
  have "snd (snd (Request w c method path (Some b) result))
          = fst (attempts w (built_request w c method path (Some b)) 3 0 [])"
    unfolding Request_sendable [OF True]
    by (cases "attempts w (built_request w c method path (Some b)) 3 0 []")
       (auto split: loop_result.splits sum.splits option.splits prod.splits)
  with assms attempts_trace_events [of w "built_request w c method path (Some b)" 3 0 "[]"]
  have "req = built_request w c method path (Some b)" by auto
  with j show ?thesis by (simp add: built_request_def)
qed

text \<open>
  C8. When both \<open>TTSMessage\<close> and \<open>AudioURL\<close> are empty, \<open>Create\<close> returns the
  error \<open>either TTSMessage or AudioURL is required\<close> and nothing is sent (the trace is
  empty). When at least one of them is set, the check passes and the outcome of
  \<open>Create\<close> is the outcome of \<open>Post\<close> to \<open>/calls\<close> with the parameters: its
  error if it has one, else the decoded call; its trace; and never the error of the
  check. If that call reaches the loop, a \<open>POST\<close> to \<open>/calls\<close> is sent.
\<close>

theorem Create_checks_message_or_audio:
  fixes w :: "('e, CreateCallParams, VoiceCall, 'v) world"
  assumes "params' = params\<lparr>Voice := (if Voice params = [] then ''alloy'' else Voice params),
                Language := (if Language params = [] then ''en-US'' else Language params)\<rparr>"
  shows "(TTSMessage params = [] \<and> AudioURL params = [] \<longrightarrow>
            Create w c params
              = (Inl (Errorf ''either TTSMessage or AudioURL is required''), params, []))
       \<and> (\<not> (TTSMessage params = [] \<and> AudioURL params = []) \<longrightarrow>
            fst (Create w c params)
              = (case Post w c ''/calls'' (Some params') (Some zero_VoiceCall) of
                   (Some err, resp, tr) \<Rightarrow> Inl err
                 | (None, resp, tr) \<Rightarrow>
                     Inr (case resp of None \<Rightarrow> zero_VoiceCall | Some data \<Rightarrow> data))
            \<and> snd (snd (Create w c params))
              = snd (snd (Post w c ''/calls'' (Some params') (Some zero_VoiceCall)))
            \<and> fst (Create w c params)
              \<noteq> Inl (Errorf ''either TTSMessage or AudioURL is required'')
            \<and> (sendable w c ''POST'' ''/calls'' (Some params') \<longrightarrow>
                 (\<exists>tr'. snd (snd (Create w c params))
                    = Do (built_request w c ''POST'' ''/calls'' (Some params')) # tr')))"
proof -
  have p: "(if Language (if Voice params = [] then params\<lparr>Voice := ''alloy''\<rparr> else params) = []
            then (if Voice params = [] then params\<lparr>Voice := ''alloy''\<rparr> else params)
                   \<lparr>Language := ''en-US''\<rparr>
            else (if Voice params = [] then params\<lparr>Voice := ''alloy''\<rparr> else params)) = params'"
    unfolding assms by simp
  have c: "Create w c params =
     (if TTSMessage params = [] \<and> AudioURL params = [] then
        (Inl (Errorf ''either TTSMessage or AudioURL is required''), params, [])
      else (case Post w c ''/calls'' (Some params') (Some zero_VoiceCall) of
              (Some err, resp, tr) \<Rightarrow> (Inl err, params', tr)
            | (None, resp, tr) \<Rightarrow>
                (Inr (case resp of None \<Rightarrow> zero_VoiceCall | Some data \<Rightarrow> data),
                 params', tr)))"
    unfolding Create_def Let_def p by (rule refl)
  have ne: "fst (Post w c ''/calls'' (Some params') (Some zero_VoiceCall))
              \<noteq> Some (Errorf ''either TTSMessage or AudioURL is required'')"
    unfolding Post_def by (rule Request_not_Errorf)
  have snd_tr: "sendable w c ''POST'' ''/calls'' (Some params') \<Longrightarrow>
     \<exists>tr'. snd (snd (Post w c ''/calls'' (Some params') (Some zero_VoiceCall)))
        = Do (built_request w c ''POST'' ''/calls'' (Some params')) # tr'"
    unfolding Post_def by (rule Request_first_send)
  show ?thesis
    unfolding c using ne snd_tr
    by (cases "Post w c ''/calls'' (Some params') (Some zero_VoiceCall)")
       (auto split: option.splits)
qed

theorem Create_checks_message_or_audio_witness:
  "Create (test_world (\<lambda>k. Inr (reply 201 ''{}'')) decode_call
             :: (string, CreateCallParams, VoiceCall, string) world) test_client zero_params
     = (Inl (Errorf ''either TTSMessage or AudioURL is required''), zero_params, [])
   \<and> fst (Create (test_world (\<lambda>k. Inr (reply 201 ''{}'')) decode_call
             :: (string, CreateCallParams, VoiceCall, string) world) test_client hello_params)
     = Inr (zero_VoiceCall\<lparr>call_ID := ''call_1''\<rparr>)"
proof -
  have e: "ends_with (test_world (\<lambda>k. Inr (reply 201 ''{}'')) decode_call
             :: (string, CreateCallParams, VoiceCall, string) world) 0 (reply 201 ''{}'')"
    by (rule ends_with_first) (simp add: retryable_status_def)
  note a = Create_checks_message_or_audio [OF refl, of zero_params
      "test_world (\<lambda>k. Inr (reply 201 ''{}'')) decode_call" test_client]
  note b = Create_checks_message_or_audio [OF refl, of hello_params
      "test_world (\<lambda>k. Inr (reply 201 ''{}'')) decode_call" test_client]
  from a have "Create (test_world (\<lambda>k. Inr (reply 201 ''{}'')) decode_call
             :: (string, CreateCallParams, VoiceCall, string) world) test_client zero_params
     = (Inl (Errorf ''either TTSMessage or AudioURL is required''), zero_params, [])"
    by (simp add: zero_params_def)
  moreover from b have "fst (Create (test_world (\<lambda>k. Inr (reply 201 ''{}'')) decode_call
             :: (string, CreateCallParams, VoiceCall, string) world) test_client hello_params)
     = Inr (zero_VoiceCall\<lparr>call_ID := ''call_1''\<rparr>)"
    by (simp add: hello_params_def zero_params_def Post_def
        Request_final [OF sendable_test_world e refl refl] reply_sel test_world_sel
        decode_call_def)
  ultimately show ?thesis by blast
qed

text \<open>
  C10 (as amended). When the check passes (\<open>TTSMessage\<close> or \<open>AudioURL\<close> is set),
  \<open>Create\<close> writes to the caller's \<open>params\<close>: an empty \<open>Voice\<close> becomes \<open>alloy\<close>,
  an empty \<open>Language\<close> becomes \<open>en-US\<close>, every other field keeps its value, and the
  caller sees the struct so updated after the call. The writes happen before anything
  is sent: every request sent carries the serialisation of the updated struct. When
  the check fails, \<open>Create\<close> returns before the defaults, and \<open>params\<close> is unchanged.
\<close>

theorem Create_applies_defaults:
  fixes w :: "('e, CreateCallParams, VoiceCall, 'v) world"
  assumes "params' = fst (snd (Create w c params))"
  shows "(\<not> (TTSMessage params = [] \<and> AudioURL params = []) \<longrightarrow>
            params' = params\<lparr>Voice := (if Voice params = [] then ''alloy'' else Voice params),
                        Language := (if Language params = [] then ''en-US''
                                     else Language params)\<rparr>
            \<and> (\<forall>req. Do req \<in> set (snd (snd (Create w c params))) \<longrightarrow>
                 (\<exists>jsonBody. json_Marshal w params' = Inr jsonBody
                    \<and> req_Body req = Some jsonBody)))
       \<and> (TTSMessage params = [] \<and> AudioURL params = [] \<longrightarrow>
            params' = params \<and> snd (snd (Create w c params)) = [])"
proof -
  define p where "p = params\<lparr>Voice := (if Voice params = [] then ''alloy'' else Voice params),
                        Language := (if Language params = [] then ''en-US''
                                     else Language params)\<rparr>"
  have q: "(if Language (if Voice params = [] then params\<lparr>Voice := ''alloy''\<rparr> else params) = []
            then (if Voice params = [] then params\<lparr>Voice := ''alloy''\<rparr> else params)
                   \<lparr>Language := ''en-US''\<rparr>
            else (if Voice params = [] then params\<lparr>Voice := ''alloy''\<rparr> else params)) = p"
    unfolding p_def by simp
  have c: "Create w c params =
     (if TTSMessage params = [] \<and> AudioURL params = [] then
        (Inl (Errorf ''either TTSMessage or AudioURL is required''), params, [])
      else (case Post w c ''/calls'' (Some p) (Some zero_VoiceCall) of
              (Some err, resp, tr) \<Rightarrow> (Inl err, p, tr)
            | (None, resp, tr) \<Rightarrow>
                (Inr (case resp of None \<Rightarrow> zero_VoiceCall | Some data \<Rightarrow> data), p, tr)))"
    unfolding Create_def Let_def q by (rule refl)
  have sent: "\<exists>jsonBody. json_Marshal w p = Inr jsonBody \<and> req_Body req = Some jsonBody"
    if "Do req \<in> set (snd (snd (Post w c ''/calls'' (Some p) (Some zero_VoiceCall))))" for req
    using Request_sent_body [OF that [unfolded Post_def]] by blast
  show ?thesis
  proof (cases "TTSMessage params = [] \<and> AudioURL params = []")
    case True
    with c assms show ?thesis by simp
  next
    case False
    with c have fs: "fst (snd (Create w c params)) = p"
      and tr: "snd (snd (Create w c params))
                 = snd (snd (Post w c ''/calls'' (Some p) (Some zero_VoiceCall)))"
      by (cases "Post w c ''/calls'' (Some p) (Some zero_VoiceCall)";
          auto split: option.splits)+
    from False fs tr sent assms show ?thesis
      unfolding p_def [symmetric] by auto
  qed
qed

theorem Create_applies_defaults_witness:
  "fst (snd (Create (test_world (\<lambda>k. Inr (reply 201 ''{}'')) decode_call
             :: (string, CreateCallParams, VoiceCall, string) world) test_client hello_params))
     = \<lparr>To = ''+15550100'', From = ''+15550199'', TTSMessage = ''Hello'', AudioURL = [],
        Voice = ''alloy'', Language = ''en-US'', Record = False, MachineDetection = False,
        WebhookURL = [], Metadata = Map.empty\<rparr>
   \<and> fst (snd (Create (test_world (\<lambda>k. Inr (reply 201 ''{}'')) decode_call
             :: (string, CreateCallParams, VoiceCall, string) world) test_client
             (hello_params\<lparr>Voice := ''nova''\<rparr>)))
     = \<lparr>To = ''+15550100'', From = ''+15550199'', TTSMessage = ''Hello'', AudioURL = [],
        Voice = ''nova'', Language = ''en-US'', Record = False, MachineDetection = False,
        WebhookURL = [], Metadata = Map.empty\<rparr>"
  using
    Create_applies_defaults [OF refl, of hello_params
      "test_world (\<lambda>k. Inr (reply 201 ''{}'')) decode_call" test_client]
    Create_applies_defaults [OF refl, of "hello_params\<lparr>Voice := ''nova''\<rparr>"
      "test_world (\<lambda>k. Inr (reply 201 ''{}'')) decode_call" test_client]
  by (simp add: hello_params_def zero_params_def)

text \<open>
  The claim as stated has the defaults written whenever the fields are empty. With
  nothing set, \<open>Create\<close> returns at the check and \<open>Voice\<close> and \<open>Language\<close> stay
  empty.
\<close>

theorem Create_defaults_counterexample:
  "Voice zero_params = [] \<and> Language zero_params = []
   \<and> fst (snd (Create (test_world (\<lambda>k. Inr (reply 201 ''{}'')) decode_call
             :: (string, CreateCallParams, VoiceCall, string) world) test_client zero_params))
     = zero_params
   \<and> Voice (fst (snd (Create (test_world (\<lambda>k. Inr (reply 201 ''{}'')) decode_call
             :: (string, CreateCallParams, VoiceCall, string) world) test_client zero_params)))
     \<noteq> ''alloy''
   \<and> Language (fst (snd (Create (test_world (\<lambda>k. Inr (reply 201 ''{}'')) decode_call
             :: (string, CreateCallParams, VoiceCall, string) world) test_client zero_params)))
     \<noteq> ''en-US''"
  by (simp add: Create_def zero_params_def)

subsection \<open>Pagination\<close>

lemma sint_add_no_overflow:
  fixes a b :: go_int
  assumes "0 \<le> sint a" and "0 \<le> sint b" and "sint a + sint b < 2 ^ 63"
  shows "sint (a + b) = sint a + sint b"
proof -
  have "sint (a + b) = signed_take_bit 63 (sint a + sint b)"
    by (simp add: sint_word_ariths)
  also have "\<dots> = sint a + sint b"
    using assms by (intro signed_take_bit_int_eq_self) auto
  finally show ?thesis .
qed

text \<open>
  C4 (as amended). For every paginated response whose total, limit and offset are
  non-negative and whose \<open>offset + limit\<close> does not exceed the largest \<open>int\<close>
  (\<open>2^63 - 1\<close>), \<open>HasMore\<close> is true exactly when \<open>offset + limit < total\<close>, and
  \<open>NextOffset\<close> is \<open>offset + limit\<close>.
\<close>

theorem paginated_in_range:
  assumes "0 \<le> sint (Total p)" and "0 \<le> sint (Limit p)" and "0 \<le> sint (Offset p)"
    and "sint (Offset p) + sint (Limit p) < 2 ^ 63"
  shows "(HasMore p \<longleftrightarrow> sint (Offset p) + sint (Limit p) < sint (Total p))
       \<and> sint (NextOffset p) = sint (Offset p) + sint (Limit p)"
  using sint_add_no_overflow [OF assms(3) assms(2) assms(4)]
  by (simp add: HasMore_def NextOffset_def)

theorem paginated_in_range_witness:
  "(HasMore \<lparr>Data = [()], Total = 25, Limit = 10, Offset = 10\<rparr>
      \<longleftrightarrow> sint (10 :: go_int) + sint (10 :: go_int) < sint (25 :: go_int))
   \<and> sint (NextOffset \<lparr>Data = [()], Total = 25, Limit = 10, Offset = 10\<rparr>) = 20"
  using paginated_in_range [of "\<lparr>Data = [()], Total = 25, Limit = 10, Offset = 10\<rparr>"]
  by simp

text \<open>
  The claim as stated, for all non-negative integers, fails where the sum wraps around:
  with offset \<open>2^63 - 1\<close>, limit 1 and total 0 the sum is \<open>-2^63\<close>, so \<open>HasMore\<close>
  answers true although \<open>offset + limit < total\<close> is false, and \<open>NextOffset\<close> is
  negative.
\<close>

theorem paginated_overflow_counterexample:
  "0 \<le> sint (0 :: go_int) \<and> 0 \<le> sint (1 :: go_int)
   \<and> 0 \<le> sint (9223372036854775807 :: go_int)
   \<and> HasMore \<lparr>Data = [] :: unit list, Total = 0, Limit = 1, Offset = 9223372036854775807\<rparr>
   \<and> \<not> (sint (9223372036854775807 :: go_int) + sint (1 :: go_int) < sint (0 :: go_int))
   \<and> sint (NextOffset \<lparr>Data = [] :: unit list, Total = 0, Limit = 1, Offset = 9223372036854775807\<rparr>)
       = - 9223372036854775808
   \<and> sint (9223372036854775807 :: go_int) + sint (1 :: go_int) = 9223372036854775808"
  by (simp add: HasMore_def NextOffset_def)

end
